theory Spec2Isabelle
  imports Complex_Main
begin

section \<open>The DRMM trainer (\<^verbatim>\<open>src/train_drmm.py\<close>)\<close>

text \<open>
  The script trains a relevance model with a pairwise hinge loss. Its own code is the
  loss (\<^verbatim>\<open>loss_fn\<close>), the per-batch loss (\<^verbatim>\<open>model_fn\<close>), the validation
  subroutine (\<^verbatim>\<open>valid_fn\<close>) and the endless training loop with its two-level
  checkpoint gate. PyTorch, the data loaders and the DRMM network are collaborators: they
  enter the model as parameters (the record \<open>env\<close>, the loaders) and through the
  documented behaviour of the few library calls the script makes.

  Numbers. Score tensors are one-dimensional and their entries, like every loss, are
  real numbers with exact arithmetic: rounding and overflow of the machine floats are not
  modelled. The two gate variables \<^verbatim>\<open>min_loss\<close> and \<^verbatim>\<open>prev_loss\<close> start at
  \<^verbatim>\<open>float('inf')\<close> and are only ever compared and copied, so they are Python floats
  with their special values and IEEE comparisons (\<open>pyfloat\<close>).
\<close>

subsection \<open>Errors and Python floats\<close>

datatype error = StopIteration | ZeroDivisionError | RuntimeError

datatype pyfloat = Fin real | PInf | NInf | NaN

text \<open>\<^verbatim>\<open>a < b\<close> on Python floats: false as soon as one side is NaN.\<close>

fun flt :: "pyfloat \<Rightarrow> pyfloat \<Rightarrow> bool" where
  "flt NaN b = False"
| "flt a NaN = False"
| "flt (Fin x) (Fin y) = (x < y)"
| "flt (Fin x) PInf = True"
| "flt (Fin x) NInf = False"
| "flt PInf b = False"
| "flt NInf NInf = False"
| "flt NInf b = True"

text \<open>\<^verbatim>\<open>a >= b\<close> on Python floats (again false on NaN), written \<open>fge a b\<close>.\<close>

fun fge :: "pyfloat \<Rightarrow> pyfloat \<Rightarrow> bool" where
  "fge NaN b = False"
| "fge a NaN = False"
| "fge (Fin x) (Fin y) = (y \<le> x)"
| "fge (Fin x) PInf = False"
| "fge (Fin x) NInf = True"
| "fge PInf b = True"
| "fge NInf NInf = True"
| "fge NInf b = False"

subsection \<open>The hinge loss\<close>

text \<open>
  Elementwise operations on one-dimensional tensors broadcast: equal lengths pair up, a
  tensor of length one is stretched, anything else is a shape error.
\<close>

definition broadcast :: "(real \<Rightarrow> real \<Rightarrow> real) \<Rightarrow> real list \<Rightarrow> real list \<Rightarrow> error + real list" where
  "broadcast f xs ys =
     (if length xs = length ys then Inr (map2 f xs ys)
      else if length xs = 1 then Inr (map (f (hd xs)) ys)
      else if length ys = 1 then Inr (map (\<lambda>x. f x (hd ys)) xs)
      else Inl RuntimeError)"

text \<open>
  \<^verbatim>\<open>z = torch.zeros(scores_pos.shape).to(device)\<close>
  \<^verbatim>\<open>return torch.sum(torch.max(z, 1.0 - scores_pos + scores_neg))\<close>
\<close>

definition loss_fn :: "real list \<Rightarrow> real list \<Rightarrow> string \<Rightarrow> error + real" where
  "loss_fn scores_pos scores_neg device =
     (let z = replicate (length scores_pos) 0 in
      case broadcast (+) (map (\<lambda>p. 1.0 - p) scores_pos) scores_neg of
        Inl e \<Rightarrow> Inl e
      | Inr margins \<Rightarrow>
          (case broadcast max z margins of
             Inl e \<Rightarrow> Inl e
           | Inr hinge \<Rightarrow> Inr (sum_list hinge)))"

subsection \<open>Objects of the run\<close>

text \<open>
  A batch is the tuple \<^verbatim>\<open>(query, pos_doc, neg_doc, query_len)\<close>. A data loader is known
  by the batch sequence each of its iterators yields; a shuffling loader draws that order
  from the random generator, so the sequence is a function of the generator's state
  (\<open>rng\<close>), constant for a loader with \<^verbatim>\<open>shuffle=False\<close>.
\<close>

type_synonym ('t, 'l) batch = "'t \<times> 't \<times> 't \<times> 'l"

type_synonym ('t, 'l) DataLoader = "nat \<Rightarrow> ('t, 'l) batch list"

text \<open>
  A module object: where its parameter tensors live in the tensor store, and its mode flag
  (\<^verbatim>\<open>.train()\<close> sets it, \<^verbatim>\<open>.eval()\<close> clears it). A variable or an argument
  holding a model holds the address of such an object.
\<close>

record DRMM =
  weights :: nat
  training :: bool

text \<open>What \<^verbatim>\<open>torch.save\<close> leaves in the checkpoint file: the pickled object.\<close>

datatype 'p pickled = PickledNone | PickledState 'p

text \<open>
  The state of the process. Iterator objects live in \<open>cells\<close> (address to the batches
  still to be yielded; \<open>fresh\<close> is the next unused address), module objects in
  \<open>modules\<close>, parameter tensors in \<open>tensors\<close>. The other fields are the script's
  module-level variables, the checkpoint file at \<^verbatim>\<open>argvs.model_path\<close> and the lines
  printed by \<^verbatim>\<open>pbar.write\<close> (step and loss).
\<close>

record ('t, 'l, 'p, 'o) state =
  cells :: "nat \<Rightarrow> ('t, 'l) batch list"
  fresh :: nat
  rng :: nat
  modules :: "nat \<Rightarrow> DRMM"
  tensors :: "nat \<Rightarrow> 'p"
  drmm_model :: nat
  optimizer :: 'o
  train_iterator :: nat
  test_iterator :: nat
  step :: nat
  min_loss :: pyfloat
  prev_loss :: pyfloat
  best_state_dict :: "nat option"
  checkpoint :: "'p pickled option"
  written :: "(nat \<times> pyfloat) list"

text \<open>
  The collaborators: the network's forward pass (parameters, mode flag, embedded query,
  embedded document, query lengths; it may fail), and the effect of
  \<^verbatim>\<open>loss.backward(); optimizer.step(); optimizer.zero_grad()\<close> for the loss of one batch on
  the optimizer's state and the parameters.
\<close>

record ('t, 'l, 'e, 'p, 'o) env =
  forward :: "'p \<Rightarrow> bool \<Rightarrow> 'e \<Rightarrow> 'e \<Rightarrow> 'l \<Rightarrow> error + real list"
  descend :: "'o \<Rightarrow> 'p \<Rightarrow> ('t, 'l) batch \<Rightarrow> 'o \<times> 'p"

subsection \<open>Iterators\<close>

text \<open>\<^verbatim>\<open>next(iterator)\<close>: an exhausted iterator raises, and stays exhausted.\<close>

definition py_next :: "nat \<Rightarrow> ('t, 'l, 'p, 'o) state \<Rightarrow> (error + ('t, 'l) batch) \<times> ('t, 'l, 'p, 'o) state" where
  "py_next it s =
     (case cells s it of
        [] \<Rightarrow> (Inl StopIteration, s)
      | b # bs \<Rightarrow> (Inr b, s\<lparr>cells := (cells s)(it := bs)\<rparr>))"

text \<open>\<^verbatim>\<open>iter(dataloader)\<close>: a new iterator object over the whole loader.\<close>

definition py_iter :: "('t, 'l) DataLoader \<Rightarrow> ('t, 'l, 'p, 'o) state \<Rightarrow> nat \<times> ('t, 'l, 'p, 'o) state" where
  "py_iter dataloader s =
     (fresh s, s\<lparr>cells := (cells s)(fresh s := dataloader (rng s)), fresh := fresh s + 1, rng := rng s + 1\<rparr>)"

text \<open>
  The pattern both loops use to pull a batch:
  \<^verbatim>\<open>try: batch = next(iterator)\<close>
  \<^verbatim>\<open>except StopIteration: iterator = iter(dataloader); batch = next(iterator)\<close>
  The result carries the value of the variable \<^verbatim>\<open>iterator\<close> after the statement: the
  assignment in the handler rebinds that variable only.
\<close>

definition next_batch :: "('t, 'l) DataLoader \<Rightarrow> nat \<Rightarrow> ('t, 'l, 'p, 'o) state \<Rightarrow> (error + ('t, 'l) batch) \<times> nat \<times> ('t, 'l, 'p, 'o) state" where
  "next_batch dataloader iterator s =
     (case py_next iterator s of
        (Inr batch, s1) \<Rightarrow> (Inr batch, iterator, s1)
      | (Inl StopIteration, s1) \<Rightarrow>
          (let (iterator', s2) = py_iter dataloader s1;
               (r, s3) = py_next iterator' s2
           in (r, iterator', s3))
      | (Inl e, s1) \<Rightarrow> (Inl e, iterator, s1))"

subsection \<open>\<^verbatim>\<open>model_fn\<close>\<close>

text \<open>
  \<^verbatim>\<open>def model_fn(batch, word_embedding, model, device)\<close>. The two scoring calls are
  \<^verbatim>\<open>drmm_model(query, pos_doc, query_len)\<close> and \<^verbatim>\<open>drmm_model(query, neg_doc, query_len)\<close>:
  they go through the module-level variable \<^verbatim>\<open>drmm_model\<close>, read here from the state.
\<close>

definition model_fn :: "('t, 'l, 'e, 'p, 'o) env \<Rightarrow> ('t, 'l) batch \<Rightarrow> ('t \<Rightarrow> 'e) \<Rightarrow> nat \<Rightarrow> string \<Rightarrow> ('t, 'l, 'p, 'o) state \<Rightarrow> error + real" where
  "model_fn E batch word_embedding model device s =
     (let (query, pos_doc, neg_doc, query_len) = batch;
          query = word_embedding query;
          pos_doc = word_embedding pos_doc;
          neg_doc = word_embedding neg_doc;
          net = forward E (tensors s (weights (modules s (drmm_model s))))
                  (training (modules s (drmm_model s)))
      in case net query pos_doc query_len of
           Inl e \<Rightarrow> Inl e
         | Inr scores_pos \<Rightarrow>
             (case net query neg_doc query_len of
                Inl e \<Rightarrow> Inl e
              | Inr scores_neg \<Rightarrow> loss_fn scores_pos scores_neg device))"

subsection \<open>\<^verbatim>\<open>valid_fn\<close>\<close>

text \<open>\<^verbatim>\<open>drmm_model.eval()\<close> and \<^verbatim>\<open>drmm_model.train()\<close> set the flag of the global model.\<close>

definition set_mode :: "bool \<Rightarrow> ('t, 'l, 'p, 'o) state \<Rightarrow> ('t, 'l, 'p, 'o) state" where
  "set_mode flag s =
     s\<lparr>modules := (modules s)(drmm_model s := (modules s (drmm_model s))\<lparr>training := flag\<rparr>)\<rparr>"

text \<open>
  The sampling loop \<^verbatim>\<open>for i in range(valid_num)\<close>, with the iterations still to run, the
  local variable \<^verbatim>\<open>iterator\<close> and \<^verbatim>\<open>running_loss\<close>. An exception leaves the loop at once;
  the state it leaves behind is returned with it.
\<close>

fun valid_loop :: "('t, 'l, 'e, 'p, 'o) env \<Rightarrow> ('t, 'l) DataLoader \<Rightarrow> ('t \<Rightarrow> 'e) \<Rightarrow> nat \<Rightarrow> int \<Rightarrow> string \<Rightarrow>
    nat \<Rightarrow> nat \<Rightarrow> real \<Rightarrow> ('t, 'l, 'p, 'o) state \<Rightarrow> (error + real) \<times> ('t, 'l, 'p, 'o) state" where
  "valid_loop E dataloader word_embedding model batch_size device 0 iterator running_loss s =
     (Inr running_loss, s)"
| "valid_loop E dataloader word_embedding model batch_size device (Suc k) iterator running_loss s =
     (case next_batch dataloader iterator s of
        (Inl e, iterator', s1) \<Rightarrow> (Inl e, s1)
      | (Inr batch, iterator', s1) \<Rightarrow>
          (case model_fn E batch word_embedding model device s1 of
             Inl e \<Rightarrow> (Inl e, s1)
           | Inr loss \<Rightarrow>
               if batch_size = 0 then (Inl ZeroDivisionError, s1)
               else valid_loop E dataloader word_embedding model batch_size device k iterator'
                      (running_loss + loss / real_of_int batch_size) s1))"

text \<open>
  \<^verbatim>\<open>def valid_fn(dataloader, iterator, word_embedding, model, valid_num, batch_size, device)\<close>.
  \<^verbatim>\<open>range(valid_num)\<close> is empty for a negative count; the final division raises on zero.
\<close>

definition valid_fn :: "('t, 'l, 'e, 'p, 'o) env \<Rightarrow> ('t, 'l) DataLoader \<Rightarrow> nat \<Rightarrow> ('t \<Rightarrow> 'e) \<Rightarrow> nat \<Rightarrow> int \<Rightarrow> int \<Rightarrow> string \<Rightarrow>
    ('t, 'l, 'p, 'o) state \<Rightarrow> (error + real) \<times> ('t, 'l, 'p, 'o) state" where
  "valid_fn E dataloader iterator word_embedding model valid_num batch_size device s =
     (case valid_loop E dataloader word_embedding model batch_size device (nat valid_num) iterator 0
             (set_mode False s) of
        (Inl e, s1) \<Rightarrow> (Inl e, s1)
      | (Inr running_loss, s1) \<Rightarrow>
          (if valid_num = 0 then (Inl ZeroDivisionError, set_mode True s1)
           else (Inr (running_loss / real_of_int valid_num), set_mode True s1)))"

subsection \<open>The training loop\<close>

text \<open>The command line and the objects \<^verbatim>\<open>__main__\<close> builds before the loop.\<close>

record ('t, 'l, 'e) main =
  valid_steps :: int
  save_steps :: int
  valid_num :: int
  batch_size :: int
  word_embedding :: "'t \<Rightarrow> 'e"
  device :: string
  train_loader :: "('t, 'l) DataLoader"
  test_loader :: "('t, 'l) DataLoader"

text \<open>
  \<^verbatim>\<open>Module.state_dict()\<close> returns a dictionary of the module's own parameter tensors, not
  of copies: it is known by the address of those tensors. \<^verbatim>\<open>torch.save\<close> pickles what
  the object it is given holds when it is called.
\<close>

definition state_dict :: "DRMM \<Rightarrow> nat" where
  "state_dict m = weights m"

definition torch_save :: "nat option \<Rightarrow> ('t, 'l, 'p, 'o) state \<Rightarrow> 'p pickled" where
  "torch_save obj s = (case obj of None \<Rightarrow> PickledNone | Some a \<Rightarrow> PickledState (tensors s a))"

text \<open>
  Lines 121 to 136: pull a training batch (the handler's assignment is to the module-level
  \<^verbatim>\<open>train_iterator\<close>), compute the loss, take one optimizer step on the model's
  parameters in place, and format \<^verbatim>\<open>loss.item() / argvs.batch_size\<close> for the progress bar.
\<close>

definition train_batch :: "('t, 'l, 'e, 'p, 'o) env \<Rightarrow> ('t, 'l, 'e) main \<Rightarrow> ('t, 'l, 'p, 'o) state \<Rightarrow> error + ('t, 'l, 'p, 'o) state" where
  "train_batch E M s =
     (case next_batch (train_loader M) (train_iterator s) s of
        (Inl e, iterator', s1) \<Rightarrow> Inl e
      | (Inr batch, iterator', s1) \<Rightarrow>
          (let s2 = s1\<lparr>train_iterator := iterator'\<rparr> in
           case model_fn E batch (word_embedding M) (drmm_model s2) (device M) s2 of
             Inl e \<Rightarrow> Inl e
           | Inr loss \<Rightarrow>
               (let w = weights (modules s2 (drmm_model s2));
                    (opt', params') = descend E (optimizer s2) (tensors s2 w) batch;
                    s3 = s2\<lparr>tensors := (tensors s2)(w := params'), optimizer := opt'\<rparr>
                in if batch_size M = 0 then Inl ZeroDivisionError else Inr s3)))"

text \<open>
  Lines 141 and 142, the script's one call of \<^verbatim>\<open>valid_fn\<close>:
  \<^verbatim>\<open>valid_fn(test_loader, test_iterator, word_embedding, drmm_model, valid_num, argvs.batch_size, device)\<close>
\<close>

definition call_valid_fn :: "('t, 'l, 'e, 'p, 'o) env \<Rightarrow> ('t, 'l, 'e) main \<Rightarrow> ('t, 'l, 'p, 'o) state \<Rightarrow>
    (error + real) \<times> ('t, 'l, 'p, 'o) state" where
  "call_valid_fn E M s =
     valid_fn E (test_loader M) (test_iterator s) (word_embedding M) (drmm_model s)
       (valid_num M) (batch_size M) (device M) s"

text \<open>
  Lines 144 to 146, for a validation loss just measured:
  \<^verbatim>\<open>if valid_loss < min_loss: min_loss = valid_loss; best_state_dict = drmm_model.state_dict()\<close>
\<close>

definition candidate :: "pyfloat \<Rightarrow> ('t, 'l, 'p, 'o) state \<Rightarrow> ('t, 'l, 'p, 'o) state" where
  "candidate valid_loss s =
     (if flt valid_loss (min_loss s)
      then s\<lparr>min_loss := valid_loss, best_state_dict := Some (state_dict (modules s (drmm_model s)))\<rparr>
      else s)"

text \<open>Lines 138 to 148: \<^verbatim>\<open>if (step + 1) % valid_steps == 0\<close>, validate and note a candidate.\<close>

definition validate :: "('t, 'l, 'e, 'p, 'o) env \<Rightarrow> ('t, 'l, 'e) main \<Rightarrow> ('t, 'l, 'p, 'o) state \<Rightarrow> error + ('t, 'l, 'p, 'o) state" where
  "validate E M s =
     (if valid_steps M = 0 then Inl ZeroDivisionError
      else if int (step s + 1) mod valid_steps M = 0 then
        (case call_valid_fn E M s of
           (Inl e, s1) \<Rightarrow> Inl e
         | (Inr valid_loss, s1) \<Rightarrow> Inr (candidate (Fin valid_loss) s1))
      else Inr s)"

text \<open>
  Lines 150 to 154: \<^verbatim>\<open>if (step + 1) % save_steps == 0: if min_loss < prev_loss:\<close>
  \<^verbatim>\<open>torch.save(best_state_dict, argvs.model_path); prev_loss = min_loss; pbar.write(...)\<close>
\<close>

definition save :: "('t, 'l, 'e) main \<Rightarrow> ('t, 'l, 'p, 'o) state \<Rightarrow> error + ('t, 'l, 'p, 'o) state" where
  "save M s =
     (if save_steps M = 0 then Inl ZeroDivisionError
      else if int (step s + 1) mod save_steps M = 0 then
        (if flt (min_loss s) (prev_loss s)
         then Inr (s\<lparr>checkpoint := Some (torch_save (best_state_dict s) s),
                     prev_loss := min_loss s,
                     written := written s @ [(step s + 1, min_loss s)]\<rparr>)
         else Inr s)
      else Inr s)"

text \<open>One pass through the body of \<^verbatim>\<open>while True\<close>, ending with \<^verbatim>\<open>step += 1\<close>.\<close>

definition loop_body :: "('t, 'l, 'e, 'p, 'o) env \<Rightarrow> ('t, 'l, 'e) main \<Rightarrow> ('t, 'l, 'p, 'o) state \<Rightarrow> error + ('t, 'l, 'p, 'o) state" where
  "loop_body E M s =
     (case train_batch E M s of
        Inl e \<Rightarrow> Inl e
      | Inr s1 \<Rightarrow>
          (case validate E M s1 of
             Inl e \<Rightarrow> Inl e
           | Inr s2 \<Rightarrow>
               (case save M s2 of
                  Inl e \<Rightarrow> Inl e
                | Inr s3 \<Rightarrow> Inr (s3\<lparr>step := step s3 + 1\<rparr>))))"

text \<open>
  The loop has no exit of its own, so it is studied through its prefixes: the state after
  \<open>n\<close> iterations, or the exception that ended the process before.
\<close>

fun run :: "('t, 'l, 'e, 'p, 'o) env \<Rightarrow> ('t, 'l, 'e) main \<Rightarrow> nat \<Rightarrow> ('t, 'l, 'p, 'o) state \<Rightarrow> error + ('t, 'l, 'p, 'o) state" where
  "run E M 0 s = Inr s"
| "run E M (Suc n) s = (case loop_body E M s of Inl e \<Rightarrow> Inl e | Inr s' \<Rightarrow> run E M n s')"

text \<open>
  Lines 101 to 118, from the generator's seed, the initial parameters and the initial
  optimizer state: the two iterators, the model (a new module is in training mode), the
  counters, and nothing written yet.
\<close>

definition init :: "('t, 'l, 'e) main \<Rightarrow> nat \<Rightarrow> 'p \<Rightarrow> 'o \<Rightarrow> ('t, 'l, 'p, 'o) state" where
  "init M seed params opt =
     (let s0 = \<lparr>cells = (\<lambda>a. []), fresh = 0, rng = seed,
                modules = (\<lambda>a. \<lparr>weights = 0, training = True\<rparr>),
                tensors = (\<lambda>a. params),
                drmm_model = 0,
                optimizer = opt,
                train_iterator = 0,
                test_iterator = 0,
                step = 0,
                min_loss = PInf,
                prev_loss = PInf,
                best_state_dict = None,
                checkpoint = None,
                written = []\<rparr>;
          (a, s1) = py_iter (train_loader M) s0;
          (b, s2) = py_iter (test_loader M) s1
      in s2\<lparr>train_iterator := a, test_iterator := b\<rparr>)"

subsection \<open>Observing the cursors\<close>


text \<open>
  Successive validations as the script makes them: every call is handed the module-level
  \<^verbatim>\<open>test_iterator\<close>, which no statement of the script assigns after line 102.
\<close>

fun valid_calls :: "('t, 'l, 'e, 'p, 'o) env \<Rightarrow> ('t, 'l, 'e) main \<Rightarrow> nat \<Rightarrow> ('t, 'l, 'p, 'o) state \<Rightarrow>
    (error + real) list \<times> ('t, 'l, 'p, 'o) state" where
  "valid_calls E M 0 s = ([], s)"
| "valid_calls E M (Suc n) s =
     (let (r, s1) = call_valid_fn E M s;
          (rs, s2) = valid_calls E M n s1
      in (r # rs, s2))"

text \<open>
  The state without its iterator objects: two states that agree on it differ at most in
  which iterators exist and how far each has advanced.
\<close>

definition beside_iterators :: "('t, 'l, 'p, 'o) state \<Rightarrow> ('t, 'l, 'p, 'o) state" where
  "beside_iterators s = s\<lparr>cells := (\<lambda>a. []), fresh := 0, rng := 0\<rparr>"

text \<open>
  What the loop keeps true of its gate: \<^verbatim>\<open>prev_loss\<close> is at least \<^verbatim>\<open>min_loss\<close> (so
  neither is NaN) and is the loss of the last confirmation line, or still infinite when
  nothing was written; the file exists exactly when a line was written, and never holds
  a pickled \<^verbatim>\<open>None\<close>; \<^verbatim>\<open>best_state_dict\<close> is \<^verbatim>\<open>None\<close> exactly as long as
  \<^verbatim>\<open>min_loss\<close> is infinite, and nothing is written before that.
\<close>

definition gate_ok :: "('t, 'l, 'p, 'o) state \<Rightarrow> bool" where
  "gate_ok s \<longleftrightarrow>
     fge (prev_loss s) (min_loss s) \<and>
     (written s = [] \<longrightarrow> prev_loss s = PInf) \<and>
     (written s \<noteq> [] \<longrightarrow> prev_loss s = snd (last (written s))) \<and>
     (checkpoint s = None) = (written s = []) \<and>
     checkpoint s \<noteq> Some PickledNone \<and>
     (best_state_dict s = None) = (min_loss s = PInf) \<and>
     (min_loss s = PInf \<longrightarrow> written s = [])"

subsection \<open>A small instance\<close>

text \<open>
  Token tensors, query lengths and embeddings are numbers, the parameters are one real
  number \<open>p\<close>, the network scores a document \<open>d\<close> with \<open>p * d\<close>, and every optimizer
  step adds one to \<open>p\<close>. The loss of the batch \<open>(q, pos, neg, l)\<close> is then
  \<open>max 0 (1 - p * pos + p * neg)\<close>.
\<close>

definition toy_env :: "(nat, nat, nat, real, unit) env" where
  "toy_env = \<lparr>forward = (\<lambda>p flag q d l. Inr [p * real d]), descend = (\<lambda>opt p b. (opt, p + 1))\<rparr>"

definition fixed_loader :: "(nat, nat) batch list \<Rightarrow> (nat, nat) DataLoader" where
  "fixed_loader batches = (\<lambda>r. batches)"

definition toy_main :: "int \<Rightarrow> int \<Rightarrow> int \<Rightarrow> (nat, nat) batch list \<Rightarrow> (nat, nat, nat) main" where
  "toy_main vs ss vn test_batches =
     \<lparr>valid_steps = vs, save_steps = ss, valid_num = vn, batch_size = 1,
      word_embedding = (\<lambda>t. t), device = ''cpu'',
      train_loader = fixed_loader [(0, 1, 1, 1)],
      test_loader = fixed_loader test_batches\<rparr>"

definition two_batches :: "(nat, nat) batch list" where
  "two_batches = [(0, 1, 1, 1), (0, 1, 2, 1)]"

definition toy_init :: "(nat, nat, nat) main \<Rightarrow> real \<Rightarrow> (nat, nat, real, unit) state" where
  "toy_init M p = init M 0 p ()"

text \<open>
  A state with a second model object: module \<open>a\<close> keeps its parameters at address
  \<open>a\<close>; the global \<^verbatim>\<open>drmm_model\<close> is module 0 with parameter 1, module 1 has
  parameter 5.
\<close>

definition two_models :: "(nat, nat, real, unit) state" where
  "two_models =
     (toy_init (toy_main 1 1 1 two_batches) 1)
       \<lparr>modules := (\<lambda>a. \<lparr>weights = a, training = True\<rparr>),
        tensors := (\<lambda>a. if a = 0 then 1 else 5)\<rparr>"

section \<open>Properties\<close>

subsection \<open>The hinge loss\<close>






subsection \<open>What pulling batches leaves alone\<close>

text \<open>
  Pulling a batch, and so the whole sampling loop, touches iterator objects only: every
  variable of the script, the model and its parameters stay as they were.
\<close>

lemma beside_fields:
  "beside_iterators s' = beside_iterators s \<Longrightarrow>
   modules s' = modules s \<and> tensors s' = tensors s \<and> drmm_model s' = drmm_model s \<and>
   optimizer s' = optimizer s \<and> train_iterator s' = train_iterator s \<and>
   test_iterator s' = test_iterator s \<and> step s' = step s \<and> min_loss s' = min_loss s \<and>
   prev_loss s' = prev_loss s \<and> best_state_dict s' = best_state_dict s \<and>
   checkpoint s' = checkpoint s \<and> written s' = written s"
proof -
  assume h: "beside_iterators s' = beside_iterators s"
  have "f (beside_iterators s') = f (beside_iterators s)" for f :: "('a, 'b, 'c, 'd) state \<Rightarrow> 'x"
    using h by simp
  note c = this
  show ?thesis
    using c[of modules] c[of tensors] c[of drmm_model] c[of optimizer] c[of train_iterator]
      c[of test_iterator] c[of step] c[of min_loss] c[of prev_loss] c[of best_state_dict]
      c[of checkpoint] c[of written]
    by (simp add: beside_iterators_def)
qed

lemma py_next_beside:
  "py_next it s = (r, s') \<Longrightarrow> beside_iterators s' = beside_iterators s"
  by (auto simp: py_next_def beside_iterators_def split: list.splits)

lemma py_iter_beside:
  "py_iter dl s = (a, s') \<Longrightarrow> beside_iterators s' = beside_iterators s"
  by (auto simp: py_iter_def beside_iterators_def)

lemma next_batch_beside:
  "next_batch dl it s = (r, it', s') \<Longrightarrow> beside_iterators s' = beside_iterators s"
  unfolding next_batch_def
  by (auto split: prod.splits sum.splits error.splits simp: Let_def dest!: py_next_beside py_iter_beside)


lemma valid_loop_beside:
  "valid_loop E dl emb m bs dev k it acc s = (r, s') \<Longrightarrow> beside_iterators s' = beside_iterators s"
proof (induction k arbitrary: it acc s)
  case 0
  then show ?case by simp
next
  case (Suc k)
  obtain r1 it1 s1 where nb: "next_batch dl it s = (r1, it1, s1)"
    by (cases "next_batch dl it s") auto
  have s1: "beside_iterators s1 = beside_iterators s" by (rule next_batch_beside[OF nb])
  show ?case
    using Suc.prems nb s1 Suc.IH[of it1 _ s1]
    by (auto split: sum.splits if_splits)
qed

subsection \<open>The batch cycler\<close>



lemma next_batch_empty:
  "cells s it = [] \<Longrightarrow> dl (rng s) = [] \<Longrightarrow> fst (next_batch dl it s) = Inl StopIteration"
  by (simp add: next_batch_def py_next_def py_iter_def)






subsection \<open>The mode of the model around a validation\<close>

lemma set_mode_training [simp]:
  "training (modules (set_mode flag s) (drmm_model (set_mode flag s))) = flag"
  by (simp add: set_mode_def)

lemma beside_training:
  "beside_iterators s' = beside_iterators s \<Longrightarrow>
   training (modules s' (drmm_model s')) = training (modules s (drmm_model s))"
  by (drule beside_fields) simp

text \<open>
  \<^verbatim>\<open>valid_fn\<close> has no \<^verbatim>\<open>try\<close> around its loop. On an empty test set the first pull
  raises, and the exception leaves \<^verbatim>\<open>valid_fn\<close> with the model still in inference mode.
\<close>

theorem valid_fn_raises_in_eval_mode:
  "fst (call_valid_fn toy_env (toy_main 1 1 1 []) (toy_init (toy_main 1 1 1 []) 0)) = Inl StopIteration \<and>
   \<not> training (modules (snd (call_valid_fn toy_env (toy_main 1 1 1 []) (toy_init (toy_main 1 1 1 []) 0)))
       (drmm_model (snd (call_valid_fn toy_env (toy_main 1 1 1 []) (toy_init (toy_main 1 1 1 []) 0)))))"
  by (simp add: call_valid_fn_def valid_fn_def next_batch_def py_next_def py_iter_def toy_init_def
      init_def toy_main_def fixed_loader_def set_mode_def)

text \<open>
  Claim C2, amended. \<^verbatim>\<open>valid_fn\<close> puts the model back in training mode whenever its
  sampling loop completes, hence before every normal return. An exception raised inside
  the sampling loop leaves \<^verbatim>\<open>valid_fn\<close> as it is, with the model in inference mode.
\<close>

theorem valid_fn_mode:
  assumes "valid_fn E dl it emb m vn bs dev s = (r, s')"
  shows "(\<forall>x. fst (valid_loop E dl emb m bs dev (nat vn) it 0 (set_mode False s)) = Inr x \<longrightarrow>
            training (modules s' (drmm_model s'))) \<and>
         (\<forall>e. fst (valid_loop E dl emb m bs dev (nat vn) it 0 (set_mode False s)) = Inl e \<longrightarrow>
            r = Inl e \<and> \<not> training (modules s' (drmm_model s'))) \<and>
         (\<forall>x. r = Inr x \<longrightarrow> training (modules s' (drmm_model s')))"
proof -
  obtain r1 s1 where vl: "valid_loop E dl emb m bs dev (nat vn) it 0 (set_mode False s) = (r1, s1)"
    by (cases "valid_loop E dl emb m bs dev (nat vn) it 0 (set_mode False s)") auto
  have b: "beside_iterators s1 = beside_iterators (set_mode False s)"
    by (rule valid_loop_beside[OF vl])
  have off: "\<not> training (modules s1 (drmm_model s1))"
    using beside_training[OF b] by simp
  show ?thesis
  proof (cases r1)
    case (Inl e)
    with assms vl have "r = Inl e" "s' = s1" by (simp_all add: valid_fn_def)
    with off Inl vl show ?thesis by simp
  next
    case (Inr x)
    with assms vl have "s' = set_mode True s1" by (auto simp: valid_fn_def split: if_splits)
    with Inr vl show ?thesis by simp
  qed
qed

theorem valid_fn_mode_witness:
  "fst (call_valid_fn toy_env (toy_main 1 1 1 two_batches) (toy_init (toy_main 1 1 1 two_batches) 1)) = Inr 1 \<and>
   training (modules (snd (call_valid_fn toy_env (toy_main 1 1 1 two_batches) (toy_init (toy_main 1 1 1 two_batches) 1)))
       (drmm_model (snd (call_valid_fn toy_env (toy_main 1 1 1 two_batches) (toy_init (toy_main 1 1 1 two_batches) 1))))) \<and>
   fst (valid_loop toy_env (test_loader (toy_main 1 1 1 [])) (word_embedding (toy_main 1 1 1 []))
          (drmm_model (toy_init (toy_main 1 1 1 []) 0)) (batch_size (toy_main 1 1 1 []))
          (device (toy_main 1 1 1 [])) (nat (valid_num (toy_main 1 1 1 [])))
          (test_iterator (toy_init (toy_main 1 1 1 []) 0)) 0
          (set_mode False (toy_init (toy_main 1 1 1 []) 0))) = Inl StopIteration \<and>
   fst (call_valid_fn toy_env (toy_main 1 1 1 []) (toy_init (toy_main 1 1 1 []) 0)) = Inl StopIteration \<and>
   \<not> training (modules (snd (call_valid_fn toy_env (toy_main 1 1 1 []) (toy_init (toy_main 1 1 1 []) 0)))
       (drmm_model (snd (call_valid_fn toy_env (toy_main 1 1 1 []) (toy_init (toy_main 1 1 1 []) 0)))))"
proof -
  define M where "M = toy_main 1 1 1 two_batches"
  define S where "S = toy_init M 1"
  define M0 where "M0 = toy_main 1 1 1 []"
  define S0 where "S0 = toy_init M0 0"
  have r: "fst (call_valid_fn toy_env M S) = Inr 1"
    by (simp add: call_valid_fn_def valid_fn_def next_batch_def py_next_def py_iter_def S_def
        M_def toy_init_def init_def toy_main_def fixed_loader_def set_mode_def two_batches_def
        model_fn_def toy_env_def loss_fn_def broadcast_def)
  have l0: "fst (valid_loop toy_env (test_loader M0) (word_embedding M0) (drmm_model S0)
               (batch_size M0) (device M0) (nat (valid_num M0)) (test_iterator S0) 0
               (set_mode False S0)) = Inl StopIteration"
    by (simp add: next_batch_def py_next_def py_iter_def S0_def M0_def toy_init_def init_def
        toy_main_def fixed_loader_def set_mode_def)
  have c: "call_valid_fn toy_env M S = (fst (call_valid_fn toy_env M S), snd (call_valid_fn toy_env M S))"
    and c0: "call_valid_fn toy_env M0 S0 = (fst (call_valid_fn toy_env M0 S0), snd (call_valid_fn toy_env M0 S0))"
    by simp_all
  note a = valid_fn_mode[OF c[unfolded call_valid_fn_def], folded call_valid_fn_def]
  note a0 = valid_fn_mode[OF c0[unfolded call_valid_fn_def], folded call_valid_fn_def]
  have t: "training (modules (snd (call_valid_fn toy_env M S)) (drmm_model (snd (call_valid_fn toy_env M S))))"
    using a r by blast
  have t0: "fst (call_valid_fn toy_env M0 S0) = Inl StopIteration \<and>
            \<not> training (modules (snd (call_valid_fn toy_env M0 S0)) (drmm_model (snd (call_valid_fn toy_env M0 S0))))"
    using a0 l0 by blast
  show ?thesis using r t l0 t0 unfolding M_def S_def M0_def S0_def by blast
qed

subsection \<open>What a validation returns\<close>





lemma set_mode_beside:
  "beside_iterators s1 = beside_iterators (set_mode a s) \<Longrightarrow>
   beside_iterators (set_mode b s1) = beside_iterators (set_mode b s)"
proof -
  assume h: "beside_iterators s1 = beside_iterators (set_mode a s)"
  have m: "modules s1 = modules (set_mode a s)" and d: "drmm_model s1 = drmm_model (set_mode a s)"
    using beside_fields[OF h] by simp_all
  have "beside_iterators (set_mode b s1) = (beside_iterators s1)\<lparr>modules := (modules s1)(drmm_model s1 := (modules s1 (drmm_model s1))\<lparr>training := b\<rparr>)\<rparr>"
    by (simp add: set_mode_def beside_iterators_def)
  also have "\<dots> = (beside_iterators (set_mode a s))\<lparr>modules := (modules s1)(drmm_model s1 := (modules s1 (drmm_model s1))\<lparr>training := b\<rparr>)\<rparr>"
    using h by simp
  also have "\<dots> = beside_iterators (set_mode b s)"
    unfolding m d by (simp add: set_mode_def beside_iterators_def)
  finally show ?thesis .
qed

lemma set_mode_keeps:
  "tensors (set_mode b s) = tensors s" "optimizer (set_mode b s) = optimizer s"
  "min_loss (set_mode b s) = min_loss s" "prev_loss (set_mode b s) = prev_loss s"
  "cells (set_mode b s) = cells s" "drmm_model (set_mode b s) = drmm_model s"
  "step (set_mode b s) = step s" "best_state_dict (set_mode b s) = best_state_dict s"
  "checkpoint (set_mode b s) = checkpoint s" "written (set_mode b s) = written s"
  "test_iterator (set_mode b s) = test_iterator s" "train_iterator (set_mode b s) = train_iterator s"
  by (simp_all add: set_mode_def)



subsection \<open>Comparing Python floats\<close>

lemma flt_fge: "flt a b \<Longrightarrow> fge b a"
  by (cases a; cases b) auto

lemma fge_refl: "fge a b \<Longrightarrow> fge a a" "fge a b \<Longrightarrow> fge b b"
  by (cases a; cases b; simp)+

lemma fge_trans: "fge a b \<Longrightarrow> fge b c \<Longrightarrow> fge a c"
  by (cases a; cases b; cases c) auto

lemma fge_not_flt: "fge a b \<Longrightarrow> \<not> flt a b"
  by (cases a; cases b) auto

lemma flt_not_PInf: "flt a b \<Longrightarrow> a \<noteq> PInf"
  by (cases a; cases b) auto

lemma fge_PInf: "fge a PInf \<Longrightarrow> a = PInf"
  by (cases a) auto

subsection \<open>The checkpoint gate\<close>

text \<open>
  Training a batch and validating leave the step counter, the gate variables, the file and
  the printed lines alone (validation may lower \<^verbatim>\<open>min_loss\<close>), and every part of the
  loop body keeps \<open>gate_ok\<close>.
\<close>

lemma gate_ok_same:
  assumes g: "gate_ok s"
    and e: "min_loss s' = min_loss s" "prev_loss s' = prev_loss s"
      "best_state_dict s' = best_state_dict s" "checkpoint s' = checkpoint s"
      "written s' = written s"
  shows "gate_ok s'"
  using g unfolding gate_ok_def e .

lemma train_batch_gate:
  assumes "train_batch E M s = Inr s'"
  shows "step s' = step s \<and> min_loss s' = min_loss s \<and> prev_loss s' = prev_loss s \<and>
         best_state_dict s' = best_state_dict s \<and> checkpoint s' = checkpoint s \<and>
         written s' = written s"
proof -
  obtain r it1 s1 where nb: "next_batch (train_loader M) (train_iterator s) s = (r, it1, s1)"
    by (cases "next_batch (train_loader M) (train_iterator s) s") auto
  note f = beside_fields[OF next_batch_beside[OF nb]]
  from assms nb obtain b where r: "r = Inr b"
    by (cases r) (simp_all add: train_batch_def)
  define s2 where "s2 = s1\<lparr>train_iterator := it1\<rparr>"
  from assms nb r obtain loss where
    l: "model_fn E b (word_embedding M) (drmm_model s2) (device M) s2 = Inr loss"
    by (cases "model_fn E b (word_embedding M) (drmm_model s2) (device M) s2")
       (simp_all add: train_batch_def s2_def)
  obtain opt' params' where
    d: "descend E (optimizer s2) (tensors s2 (weights (modules s2 (drmm_model s2)))) b = (opt', params')"
    by (cases "descend E (optimizer s2) (tensors s2 (weights (modules s2 (drmm_model s2)))) b") auto
  have "train_batch E M s =
          (if batch_size M = 0 then Inl ZeroDivisionError
           else Inr (s2\<lparr>tensors := (tensors s2)(weights (modules s2 (drmm_model s2)) := params'),
                        optimizer := opt'\<rparr>))"
    using nb r l d unfolding s2_def by (simp add: train_batch_def Let_def)
  with assms have s': "s' = s2\<lparr>tensors := (tensors s2)(weights (modules s2 (drmm_model s2)) := params'),
                        optimizer := opt'\<rparr>"
    by (simp split: if_splits)
  show ?thesis unfolding s' s2_def using f by simp
qed

lemma valid_fn_gate:
  assumes "valid_fn E dl it emb m vn bs dev s = (r, s')"
  shows "step s' = step s \<and> min_loss s' = min_loss s \<and> prev_loss s' = prev_loss s \<and>
         best_state_dict s' = best_state_dict s \<and> checkpoint s' = checkpoint s \<and>
         written s' = written s \<and> tensors s' = tensors s \<and> test_iterator s' = test_iterator s \<and>
         drmm_model s' = drmm_model s \<and> optimizer s' = optimizer s"
proof -
  obtain r1 s1 where vl: "valid_loop E dl emb m bs dev (nat vn) it 0 (set_mode False s) = (r1, s1)"
    by (cases "valid_loop E dl emb m bs dev (nat vn) it 0 (set_mode False s)") auto
  note f = beside_fields[OF valid_loop_beside[OF vl], unfolded set_mode_keeps]
  have "s' = s1 \<or> s' = set_mode True s1"
    using assms vl by (auto simp: valid_fn_def split: sum.splits if_splits)
  then show ?thesis using f by (auto simp: set_mode_keeps)
qed

lemma candidate_gate:
  assumes g: "gate_ok s"
  shows "gate_ok (candidate v s)"
proof (cases "flt v (min_loss s)")
  case False
  then show ?thesis using g by (simp add: candidate_def)
next
  case True
  have a: "fge (prev_loss s) v"
    using g flt_fge[OF True] fge_trans[of "prev_loss s" "min_loss s" v] by (simp add: gate_ok_def)
  have b: "v \<noteq> PInf" by (rule flt_not_PInf[OF True])
  show ?thesis using g a b True by (simp add: candidate_def gate_ok_def)
qed

lemma candidate_prev: "prev_loss (candidate v s) = prev_loss s" "step (candidate v s) = step s"
  "checkpoint (candidate v s) = checkpoint s" "written (candidate v s) = written s"
  by (simp_all add: candidate_def)

lemma validate_gate:
  assumes "validate E M s = Inr s'" and "gate_ok s"
  shows "gate_ok s' \<and> prev_loss s' = prev_loss s \<and> step s' = step s \<and>
         checkpoint s' = checkpoint s \<and> written s' = written s"
proof (cases "valid_steps M = 0")
  case True
  with assms(1) show ?thesis by (simp add: validate_def)
next
  case nz: False
  show ?thesis
  proof (cases "int (step s + 1) mod valid_steps M = 0")
    case False
    with nz assms(1) have "s' = s" by (simp add: validate_def)
    with assms(2) show ?thesis by simp
  next
    case True
    obtain r s1 where c: "call_valid_fn E M s = (r, s1)" by (cases "call_valid_fn E M s") auto
    note f = valid_fn_gate[OF c[unfolded call_valid_fn_def]]
    from nz True c have "validate E M s = (case r of Inl e \<Rightarrow> Inl e | Inr v \<Rightarrow> Inr (candidate (Fin v) s1))"
      by (simp add: validate_def)
    with assms(1) obtain v where r: "r = Inr v" and s': "s' = candidate (Fin v) s1"
      by (cases r) simp_all
    have "gate_ok s1" by (rule gate_ok_same[OF assms(2)]) (simp_all add: f)
    then show ?thesis unfolding s' using f by (simp add: candidate_gate candidate_prev)
  qed
qed

lemma save_gate:
  assumes "save M s = Inr s'" and "gate_ok s"
  shows "gate_ok s' \<and> fge (prev_loss s) (prev_loss s') \<and> step s' = step s"
proof (cases "save_steps M = 0")
  case True
  with assms(1) show ?thesis by (simp add: save_def)
next
  case nz: False
  have pp: "fge (prev_loss s) (prev_loss s)"
    using assms(2) fge_refl(1)[of "prev_loss s" "min_loss s"] by (simp add: gate_ok_def)
  show ?thesis
  proof (cases "int (step s + 1) mod save_steps M = 0 \<and> flt (min_loss s) (prev_loss s)")
    case False
    with nz assms(1) have "s' = s" by (auto simp: save_def split: if_splits)
    with assms(2) pp show ?thesis by simp
  next
    case True
    with nz assms(1) have s': "s' = s\<lparr>checkpoint := Some (torch_save (best_state_dict s) s),
          prev_loss := min_loss s, written := written s @ [(step s + 1, min_loss s)]\<rparr>"
      by (simp add: save_def)
    from True have ne: "min_loss s \<noteq> PInf" by (auto dest: flt_not_PInf)
    with assms(2) obtain a where a: "best_state_dict s = Some a" by (auto simp: gate_ok_def)
    have r: "fge (min_loss s) (min_loss s)" and f: "fge (prev_loss s) (min_loss s)"
      using assms(2) fge_refl(2)[of "prev_loss s" "min_loss s"] by (simp_all add: gate_ok_def)
    show ?thesis using ne a r f unfolding s'
      by (simp add: gate_ok_def torch_save_def)
  qed
qed

lemma loop_body_gate:
  assumes "loop_body E M s = Inr s'" and "gate_ok s"
  shows "gate_ok s' \<and> fge (prev_loss s) (prev_loss s')"
proof -
  from assms(1) obtain s1 where 1: "train_batch E M s = Inr s1"
    by (cases "train_batch E M s") (simp_all add: loop_body_def)
  from assms(1) 1 obtain s2 where 2: "validate E M s1 = Inr s2"
    by (cases "validate E M s1") (simp_all add: loop_body_def)
  from assms(1) 1 2 obtain s3 where 3: "save M s2 = Inr s3"
    by (cases "save M s2") (simp_all add: loop_body_def)
  from assms(1) 1 2 3 have s': "s' = s3\<lparr>step := step s3 + 1\<rparr>"
    by (simp add: loop_body_def)
  have g1: "gate_ok s1" by (rule gate_ok_same[OF assms(2)]) (simp_all add: train_batch_gate[OF 1])
  note v = validate_gate[OF 2 g1]
  note sv = save_gate[OF 3 v[THEN conjunct1]]
  have "gate_ok s'" unfolding s' by (rule gate_ok_same[OF sv[THEN conjunct1]]) simp_all
  moreover have "fge (prev_loss s) (prev_loss s')"
    using sv v train_batch_gate[OF 1] unfolding s' by simp
  ultimately show ?thesis by simp
qed

lemma init_gate: "gate_ok (init M seed p opt)"
  by (simp add: gate_ok_def init_def py_iter_def)

lemma run_gate:
  "run E M n s = Inr s' \<Longrightarrow> gate_ok s \<Longrightarrow> gate_ok s' \<and> fge (prev_loss s) (prev_loss s')"
proof (induction n arbitrary: s)
  case 0
  then have "s' = s" by simp
  moreover have "fge (prev_loss s) (prev_loss s)"
    using "0.prems"(2) fge_refl(1)[of "prev_loss s" "min_loss s"] by (simp add: gate_ok_def)
  ultimately show ?case using "0.prems"(2) by simp
next
  case (Suc n)
  from Suc.prems(1) obtain s1 where b: "loop_body E M s = Inr s1"
    by (cases "loop_body E M s") simp_all
  with Suc.prems(1) have r: "run E M n s1 = Inr s'" by simp
  note l = loop_body_gate[OF b Suc.prems(2)]
  note i = Suc.IH[OF r l[THEN conjunct1]]
  show ?case using l i fge_trans[of "prev_loss s" "prev_loss s1" "prev_loss s'"] by blast
qed

lemma validate_step: "validate E M s = Inr s' \<Longrightarrow> step s' = step s"
proof (cases "valid_steps M \<noteq> 0 \<and> int (step s + 1) mod valid_steps M = 0")
  case False
  assume "validate E M s = Inr s'"
  with False have "s' = s" by (auto simp: validate_def split: if_splits)
  then show ?thesis by simp
next
  case True
  assume v: "validate E M s = Inr s'"
  obtain r s1 where c: "call_valid_fn E M s = (r, s1)" by (cases "call_valid_fn E M s") auto
  note f = valid_fn_gate[OF c[unfolded call_valid_fn_def]]
  from True c have "validate E M s = (case r of Inl e \<Rightarrow> Inl e | Inr v \<Rightarrow> Inr (candidate (Fin v) s1))"
    by (simp add: validate_def)
  with v obtain x where "s' = candidate (Fin x) s1" by (cases r) auto
  then show ?thesis using f by (simp add: candidate_prev)
qed

text \<open>Unfolding the small instance and the loop, for evaluating concrete runs.\<close>

lemmas toy_defs = toy_env_def toy_main_def toy_init_def fixed_loader_def two_batches_def
lemmas run_defs = loop_body_def train_batch_def validate_def save_def call_valid_fn_def valid_fn_def
  candidate_def state_dict_def torch_save_def set_mode_def model_fn_def loss_fn_def broadcast_def
  next_batch_def py_next_def py_iter_def init_def

text \<open>
  Claim C5. In an iteration whose 1-based index \<open>step + 1\<close> is a multiple of
  \<^verbatim>\<open>save_steps\<close>, let \<open>s2\<close> be the state at line 150, after training and (perhaps)
  validating. If \<^verbatim>\<open>min_loss < prev_loss\<close> there, the object in \<^verbatim>\<open>best_state_dict\<close> is
  written to the file, \<^verbatim>\<open>prev_loss\<close> becomes \<^verbatim>\<open>min_loss\<close> and a line with the step and
  that loss is printed; if \<^verbatim>\<open>min_loss >= prev_loss\<close>, the save step changes nothing (the
  iteration ends with only \<^verbatim>\<open>step\<close> incremented).
\<close>

theorem save_point:
  assumes "loop_body E M s = Inr s'" and "int (step s + 1) mod save_steps M = 0"
  shows "\<exists>s1 s2. train_batch E M s = Inr s1 \<and> validate E M s1 = Inr s2 \<and> step s2 = step s \<and>
           (flt (min_loss s2) (prev_loss s2) \<longrightarrow>
              s' = s2\<lparr>checkpoint := Some (torch_save (best_state_dict s2) s2),
                      prev_loss := min_loss s2,
                      written := written s2 @ [(step s + 1, min_loss s2)],
                      step := step s + 1\<rparr>) \<and>
           (fge (min_loss s2) (prev_loss s2) \<longrightarrow> s' = s2\<lparr>step := step s + 1\<rparr>)"
proof -
  from assms(1) obtain s1 where 1: "train_batch E M s = Inr s1"
    by (cases "train_batch E M s") (simp_all add: loop_body_def)
  from assms(1) 1 obtain s2 where 2: "validate E M s1 = Inr s2"
    by (cases "validate E M s1") (simp_all add: loop_body_def)
  from assms(1) 1 2 obtain s3 where 3: "save M s2 = Inr s3"
    by (cases "save M s2") (simp_all add: loop_body_def)
  from assms(1) 1 2 3 have s': "s' = s3\<lparr>step := step s3 + 1\<rparr>"
    by (simp add: loop_body_def)
  have st: "step s2 = step s" using validate_step[OF 2] train_batch_gate[OF 1] by simp
  have nz: "save_steps M \<noteq> 0" using assms(2) by auto
  have a: "s' = s2\<lparr>checkpoint := Some (torch_save (best_state_dict s2) s2),
                  prev_loss := min_loss s2,
                  written := written s2 @ [(step s + 1, min_loss s2)],
                  step := step s + 1\<rparr>" if "flt (min_loss s2) (prev_loss s2)"
    using 3 that nz assms(2) st unfolding s' by (auto simp: save_def)
  have b: "s' = s2\<lparr>step := step s + 1\<rparr>" if "fge (min_loss s2) (prev_loss s2)"
    using 3 fge_not_flt[OF that] nz assms(2) st unfolding s' by (auto simp: save_def)
  show ?thesis using 1 2 st a b by blast
qed

theorem save_point_witness:
  "\<exists>s' s''.
     loop_body toy_env (toy_main 1 1 1 two_batches) (toy_init (toy_main 1 1 1 two_batches) 1) = Inr s' \<and>
     int (step (toy_init (toy_main 1 1 1 two_batches) 1) + 1) mod save_steps (toy_main 1 1 1 two_batches) = 0 \<and>
     checkpoint s' = Some (PickledState 2) \<and> prev_loss s' = Fin 1 \<and> written s' = [(1, Fin 1)] \<and>
     loop_body toy_env (toy_main 1 1 1 two_batches) s' = Inr s'' \<and>
     int (step s' + 1) mod save_steps (toy_main 1 1 1 two_batches) = 0 \<and>
     checkpoint s'' = Some (PickledState 2) \<and> prev_loss s'' = Fin 1 \<and> min_loss s'' = Fin 1 \<and>
     written s'' = [(1, Fin 1)]"
proof -
  define M where "M = toy_main 1 1 1 two_batches"
  define S where "S = toy_init M 1"
  have md: "int (step x + 1) mod save_steps M = 0" for x :: "(nat, nat, real, unit) state"
    by (simp add: M_def toy_main_def)
  have "\<exists>s1 s2 s' t1 t2 s''.
          train_batch toy_env M S = Inr s1 \<and> validate toy_env M s1 = Inr s2 \<and>
          loop_body toy_env M S = Inr s' \<and>
          min_loss s2 = Fin 1 \<and> prev_loss s2 = PInf \<and> best_state_dict s2 = Some 0 \<and>
          tensors s2 0 = 2 \<and> written s2 = [] \<and> step S = 0 \<and>
          train_batch toy_env M s' = Inr t1 \<and> validate toy_env M t1 = Inr t2 \<and>
          loop_body toy_env M s' = Inr s'' \<and>
          min_loss t2 = Fin 1 \<and> prev_loss t2 = Fin 1 \<and> written t2 = [(1, Fin 1)] \<and>
          checkpoint t2 = Some (PickledState 2)"
    by (simp add: M_def S_def toy_defs run_defs)
  then obtain s1 s2 s' t1 t2 s'' where
    1: "train_batch toy_env M S = Inr s1" "validate toy_env M s1 = Inr s2" and
    l1: "loop_body toy_env M S = Inr s'" and
    f1: "min_loss s2 = Fin 1" "prev_loss s2 = PInf" "best_state_dict s2 = Some 0" "tensors s2 0 = 2"
        "written s2 = []" "step S = 0" and
    2: "train_batch toy_env M s' = Inr t1" "validate toy_env M t1 = Inr t2" and
    l2: "loop_body toy_env M s' = Inr s''" and
    f2: "min_loss t2 = Fin 1" "prev_loss t2 = Fin 1" "written t2 = [(1, Fin 1)]"
        "checkpoint t2 = Some (PickledState 2)"
    by blast
  from save_point[OF l1 md] 1 f1
  have a: "s' = s2\<lparr>checkpoint := Some (torch_save (best_state_dict s2) s2), prev_loss := min_loss s2,
                    written := written s2 @ [(step S + 1, min_loss s2)], step := step S + 1\<rparr>"
    by auto
  have A: "checkpoint s' = Some (PickledState 2) \<and> prev_loss s' = Fin 1 \<and> written s' = [(1, Fin 1)]"
    unfolding a using f1 by (simp add: torch_save_def)
  from save_point[OF l2 md] 2 f2
  have b: "s'' = t2\<lparr>step := step s' + 1\<rparr>" by auto
  have B: "checkpoint s'' = Some (PickledState 2) \<and> prev_loss s'' = Fin 1 \<and> min_loss s'' = Fin 1 \<and>
           written s'' = [(1, Fin 1)]"
    unfolding b using f2 by simp
  show ?thesis using l1 l2 md A B unfolding M_def S_def by blast
qed



text \<open>
  Claim C10. At every save point (line 150 of an iteration of a run from the initial
  state) where \<^verbatim>\<open>min_loss\<close> is still infinite, \<^verbatim>\<open>prev_loss\<close> is infinite too, the gate
  \<^verbatim>\<open>min_loss < prev_loss\<close> is false, nothing has been written and the save step writes
  nothing. Whenever the gate is open, \<^verbatim>\<open>best_state_dict\<close> is not \<^verbatim>\<open>None\<close>, so the
  file never holds a pickled \<^verbatim>\<open>None\<close>.
\<close>

theorem no_write_before_validation:
  assumes "run E M n (init M seed p opt) = Inr s" and "train_batch E M s = Inr s1"
    and "validate E M s1 = Inr s2"
  shows "(min_loss s2 = PInf \<longrightarrow>
            prev_loss s2 = PInf \<and> \<not> flt (min_loss s2) (prev_loss s2) \<and> best_state_dict s2 = None \<and>
            checkpoint s2 = None \<and> written s2 = [] \<and> (save_steps M \<noteq> 0 \<longrightarrow> save M s2 = Inr s2)) \<and>
         (flt (min_loss s2) (prev_loss s2) \<longrightarrow> best_state_dict s2 \<noteq> None) \<and>
         checkpoint s2 \<noteq> Some PickledNone"
proof -
  have g: "gate_ok s" using run_gate[OF assms(1) init_gate] by simp
  have g1: "gate_ok s1" by (rule gate_ok_same[OF g]) (simp_all add: train_batch_gate[OF assms(2)])
  have g2: "gate_ok s2" using validate_gate[OF assms(3) g1] by simp
  have a: "prev_loss s2 = PInf \<and> \<not> flt (min_loss s2) (prev_loss s2) \<and> best_state_dict s2 = None \<and>
           checkpoint s2 = None \<and> written s2 = [] \<and> (save_steps M \<noteq> 0 \<longrightarrow> save M s2 = Inr s2)"
    if "min_loss s2 = PInf"
    using g2 that by (simp add: gate_ok_def save_def)
  have b: "best_state_dict s2 \<noteq> None" if "flt (min_loss s2) (prev_loss s2)"
    using g2 flt_not_PInf[OF that] by (simp add: gate_ok_def)
  have c: "checkpoint s2 \<noteq> Some PickledNone" using g2 by (simp add: gate_ok_def)
  show ?thesis using a b c by blast
qed

theorem no_write_before_validation_witness:
  "\<exists>s1 s2 t t1 t2.
     train_batch toy_env (toy_main 2 1 1 two_batches) (init (toy_main 2 1 1 two_batches) 0 1 ()) = Inr s1 \<and>
     validate toy_env (toy_main 2 1 1 two_batches) s1 = Inr s2 \<and> min_loss s2 = PInf \<and>
     save_steps (toy_main 2 1 1 two_batches) \<noteq> 0 \<and>
     save (toy_main 2 1 1 two_batches) s2 = Inr s2 \<and> checkpoint s2 = None \<and> written s2 = [] \<and>
     run toy_env (toy_main 2 1 1 two_batches) 1 (init (toy_main 2 1 1 two_batches) 0 1 ()) = Inr t \<and>
     train_batch toy_env (toy_main 2 1 1 two_batches) t = Inr t1 \<and>
     validate toy_env (toy_main 2 1 1 two_batches) t1 = Inr t2 \<and>
     flt (min_loss t2) (prev_loss t2) \<and> best_state_dict t2 \<noteq> None"
proof -
  define M where "M = toy_main 2 1 1 two_batches"
  define S :: "(nat, nat, real, unit) state" where "S = init M 0 1 ()"
  have nz: "save_steps M \<noteq> 0" by (simp add: M_def toy_main_def)
  have "\<exists>s1 s2. train_batch toy_env M S = Inr s1 \<and> validate toy_env M s1 = Inr s2 \<and> min_loss s2 = PInf"
    by (simp add: M_def S_def toy_defs run_defs)
  then obtain s1 s2 where a: "train_batch toy_env M S = Inr s1" "validate toy_env M s1 = Inr s2"
    and m: "min_loss s2 = PInf" by blast
  have r0: "run toy_env M 0 (init M 0 1 ()) = Inr S" by (simp add: S_def)
  from no_write_before_validation[OF r0 a] m nz
  have A: "save M s2 = Inr s2 \<and> checkpoint s2 = None \<and> written s2 = []" by blast
  have "\<exists>t t1 t2. run toy_env M 1 (init M 0 1 ()) = Inr t \<and> train_batch toy_env M t = Inr t1 \<and>
          validate toy_env M t1 = Inr t2 \<and> flt (min_loss t2) (prev_loss t2)"
    by (simp add: M_def toy_defs run_defs)
  then obtain t t1 t2 where b: "run toy_env M 1 (init M 0 1 ()) = Inr t" "train_batch toy_env M t = Inr t1"
    "validate toy_env M t1 = Inr t2" and f: "flt (min_loss t2) (prev_loss t2)" by blast
  from no_write_before_validation[OF b] f have B: "best_state_dict t2 \<noteq> None" by blast
  show ?thesis using a m nz A b f B unfolding M_def S_def by blast
qed

subsection \<open>Where the script departs from its description\<close>

text \<open>The argument \<^verbatim>\<open>model\<close> of \<^verbatim>\<open>model_fn\<close> is never read.\<close>

lemma model_fn_model_unused: "model_fn E b emb m dev s = model_fn E b emb m' dev s"
  by (simp add: model_fn_def)

text \<open>
  Claim C6 says that \<^verbatim>\<open>model_fn\<close> scores through the model it is passed. In
  \<open>two_models\<close> the global model (parameter 1) gives the batch \<open>(0, 1, 2, 1)\<close> the loss 2
  and module 1 (parameter 5) would give it 6. Passing module 1 returns 2, the same as
  passing module 0; the loss 6 appears only once the global variable itself is module 1.
\<close>

theorem model_fn_scores_through_global:
  "drmm_model two_models = 0 \<and>
   model_fn toy_env (0, 1, 2, 1) (word_embedding (toy_main 1 1 1 two_batches)) 1 ''cpu'' two_models = Inr 2 \<and>
   model_fn toy_env (0, 1, 2, 1) (word_embedding (toy_main 1 1 1 two_batches)) 0 ''cpu'' two_models = Inr 2 \<and>
   model_fn toy_env (0, 1, 2, 1) (word_embedding (toy_main 1 1 1 two_batches)) 1 ''cpu''
     (two_models\<lparr>drmm_model := 1\<rparr>) = Inr 6"
  by (simp add: two_models_def toy_defs run_defs)

text \<open>
  Claim C1 says that successive validations advance one persistent cursor. With two
  validation batches (losses 1 and 2 under parameter 1) and \<^verbatim>\<open>valid_num = 1\<close>, four
  calls return 1, 2, 1, 1: the third call finds the cursor exhausted and rebuilds one that
  only its own local variable holds, so the caller's \<^verbatim>\<open>test_iterator\<close> (address 1) stays
  exhausted, the rebuilt cursor (address 2, still holding the second batch) is lost, and
  the fourth call starts from the first batch again, as every later call does.
\<close>

theorem valid_fn_restarts_after_rebuild:
  "fst (valid_calls toy_env (toy_main 1 1 1 two_batches) 4 (toy_init (toy_main 1 1 1 two_batches) 1)) =
     [Inr 1, Inr 2, Inr 1, Inr 1] \<and>
   test_iterator (snd (valid_calls toy_env (toy_main 1 1 1 two_batches) 3
     (toy_init (toy_main 1 1 1 two_batches) 1))) = 1 \<and>
   cells (snd (valid_calls toy_env (toy_main 1 1 1 two_batches) 3
     (toy_init (toy_main 1 1 1 two_batches) 1))) 1 = [] \<and>
   cells (snd (valid_calls toy_env (toy_main 1 1 1 two_batches) 3
     (toy_init (toy_main 1 1 1 two_batches) 1))) 2 = [(0, 1, 2, 1)]"
  by (simp add: toy_defs run_defs eval_nat_numeral)

text \<open>
  Claim C3 says that the checkpoint holds the parameters of the best validation. With
  \<^verbatim>\<open>valid_steps = 1\<close> and \<^verbatim>\<open>save_steps = 2\<close>, the first iteration validates parameter 1
  with loss 2 and keeps a state dictionary that refers to the model's own tensors. The
  second iteration updates the parameter in place to 2, validates it with loss 3 (no
  improvement), and its save step writes the file: it holds parameter 2, under a line
  that reports loss 2.
\<close>

theorem checkpoint_holds_current_parameters:
  "\<exists>s1 t s2.
     run toy_env (toy_main 1 2 1 [(0, 0, 1, 1)]) 1 (toy_init (toy_main 1 2 1 [(0, 0, 1, 1)]) 0) = Inr s1 \<and>
     min_loss s1 = Fin 2 \<and> best_state_dict s1 = Some 0 \<and> tensors s1 0 = 1 \<and> checkpoint s1 = None \<and>
     train_batch toy_env (toy_main 1 2 1 [(0, 0, 1, 1)]) s1 = Inr t \<and>
     fst (call_valid_fn toy_env (toy_main 1 2 1 [(0, 0, 1, 1)]) t) = Inr 3 \<and>
     run toy_env (toy_main 1 2 1 [(0, 0, 1, 1)]) 1 s1 = Inr s2 \<and>
     min_loss s2 = Fin 2 \<and> tensors s2 0 = 2 \<and>
     checkpoint s2 = Some (PickledState 2) \<and> written s2 = [(2, Fin 2)]"
  by (simp add: toy_defs run_defs)

end
